theory Spec2Isabelle
  imports Complex_Main "HOL-Library.Multiset"
begin

section \<open>Token service: backend/auth/jwt\_handler.py\<close>

text \<open>
  Timestamps are the values of \<^verbatim>\<open>datetime.timestamp()\<close>: seconds since the epoch with a
  fractional part, modelled as rationals. A \<^verbatim>\<open>timedelta\<close> is its number of seconds.
  Python's \<^verbatim>\<open>int(x)\<close> on such a number truncates towards zero.
\<close>

type_synonym timestamp = rat

definition py_int :: "rat \<Rightarrow> int" where
  "py_int x = (if 0 \<le> x then \<lfloor>x\<rfloor> else \<lceil>x\<rceil>)"

definition ACCESS_TOKEN_EXPIRY :: int where
  "ACCESS_TOKEN_EXPIRY = 30 * 60"

definition REFRESH_TOKEN_EXPIRY :: int where
  "REFRESH_TOKEN_EXPIRY = 7 * 24 * 60 * 60"

definition ALGORITHM :: string where
  "ALGORITHM = ''RS256''"

definition TOKEN_ISSUER :: string where
  "TOKEN_ISSUER = ''transportation-forms-api''"

definition TOKEN_AUDIENCE :: string where
  "TOKEN_AUDIENCE = ''transportation-forms-web''"

text \<open>
  The claims of a token. Both generators write \<^verbatim>\<open>sub\<close>, so it is a field of every
  payload; the claims that a refresh token lacks, and the registered claims that the
  decoder looks for, may be absent (\<^verbatim>\<open>payload.get\<close> gives \<^verbatim>\<open>None\<close>).
\<close>

record payload =
  claim_sub :: string
  claim_email :: "string option"
  claim_name :: "string option"
  claim_roles :: "string list option"
  claim_iss :: "string option"
  claim_aud :: "string option"
  claim_exp :: "timestamp option"
  claim_iat :: "timestamp option"
  claim_type :: "string option"

text \<open>
  The RSA key pair of backend/auth/keys.py: \<^verbatim>\<open>PRIVATE_KEY\<close> and \<^verbatim>\<open>PUBLIC_KEY\<close> are
  the two halves of one pair. A pair is identified by a number; the service's pair is
  number 0 and every other number is a foreign pair.
\<close>

datatype rsa_key = PrivateKey nat | PublicKey nat

definition PRIVATE_KEY :: rsa_key where
  "PRIVATE_KEY = PrivateKey 0"

definition PUBLIC_KEY :: rsa_key where
  "PUBLIC_KEY = PublicKey 0"

text \<open>
  A token string is either a compact JWS serialisation, of which the model keeps the
  \<^verbatim>\<open>alg\<close> header, the claims and the key that made the signature, or any other
  string, which the decoder cannot parse (the literal \<^verbatim>\<open>demo-token\<close> is one).
  Signing is symbolic: a signature verifies under a public key exactly when the
  private half of the same pair made it.
\<close>

datatype token_string = Opaque string | JWS string payload rsa_key

fun verifies :: "rsa_key \<Rightarrow> rsa_key \<Rightarrow> bool" where
  "verifies (PublicKey k) (PrivateKey k') = (k = k')"
| "verifies _ _ = False"

text \<open>The exceptions of the PyJWT library that its decoder raises (all are \<^verbatim>\<open>PyJWTError\<close>).\<close>

datatype jwt_error =
    DecodeError
  | InvalidAlgorithmError
  | InvalidSignatureError
  | ImmatureSignatureError
  | ExpiredSignatureError
  | MissingRequiredClaimError string
  | InvalidIssuerError
  | InvalidAudienceError

definition jwt_encode :: "payload \<Rightarrow> rsa_key \<Rightarrow> string \<Rightarrow> token_string" where
  "jwt_encode p key algorithm = JWS algorithm p key"

text \<open>
  The library's claim validation, in the library's order: issued-at (a token issued in
  the future is immature), expiry (unless \<^verbatim>\<open>verify_exp\<close> is off; the expiry is
  truncated to an integer and the token is expired from that second on), issuer,
  audience (an absent or empty audience is a missing claim). The code never writes
  \<^verbatim>\<open>nbf\<close>.
\<close>

definition validate_claims ::
  "timestamp \<Rightarrow> payload \<Rightarrow> string \<Rightarrow> string \<Rightarrow> bool \<Rightarrow> jwt_error + payload" where
  "validate_claims now p audience issuer verify_exp =
     (if (case claim_iat p of None \<Rightarrow> False | Some i \<Rightarrow> now < of_int (py_int i))
      then Inl ImmatureSignatureError
      else if verify_exp \<and> (case claim_exp p of None \<Rightarrow> False | Some e \<Rightarrow> of_int (py_int e) \<le> now)
      then Inl ExpiredSignatureError
      else (case claim_iss p of
              None \<Rightarrow> Inl (MissingRequiredClaimError ''iss'')
            | Some i \<Rightarrow>
                if i \<noteq> issuer then Inl InvalidIssuerError
                else (case claim_aud p of
                        None \<Rightarrow> Inl (MissingRequiredClaimError ''aud'')
                      | Some a \<Rightarrow>
                          if a = [] then Inl (MissingRequiredClaimError ''aud'')
                          else if a \<noteq> audience then Inl InvalidAudienceError
                          else Inr p)))"

definition jwt_decode ::
  "timestamp \<Rightarrow> token_string \<Rightarrow> rsa_key \<Rightarrow> string list \<Rightarrow> string \<Rightarrow> string \<Rightarrow> bool
     \<Rightarrow> jwt_error + payload" where
  "jwt_decode now token key algorithms audience issuer verify_exp =
     (case token of
        Opaque s \<Rightarrow> Inl DecodeError
      | JWS alg p signer \<Rightarrow>
          if alg \<notin> set algorithms then Inl InvalidAlgorithmError
          else if \<not> verifies key signer then Inl InvalidSignatureError
          else validate_claims now p audience issuer verify_exp)"

text \<open>
  \<^verbatim>\<open>TokenData\<close>. The \<^verbatim>\<open>ValueError\<close>s of the module, one constructor per message:
  the spec's Expired, BadAudience, BadIssuer, Malformed/BadSignature (any other library
  error), TypeMismatch (expected and found type), and SubjectMismatch.
\<close>

record token_data =
  sub :: string
  email :: "string option"
  name :: "string option"
  roles :: "string list"
  token_type :: string

datatype value_error =
    TokenExpired
  | InvalidAudience
  | InvalidIssuer
  | ValidationFailed jwt_error
  | InvalidTokenType string "string option"
  | InvalidRefreshToken
  | UserIdMismatch

definition generate_access_token ::
  "timestamp \<Rightarrow> string \<Rightarrow> string \<Rightarrow> string \<Rightarrow> string list \<Rightarrow> rat option \<Rightarrow> token_string" where
  "generate_access_token now user_id email' name' roles' expires_delta =
     (let expires_delta = (case expires_delta of
                             None \<Rightarrow> of_int ACCESS_TOKEN_EXPIRY | Some d \<Rightarrow> d);
          expire = now + expires_delta;
          p = \<lparr>claim_sub = user_id,
               claim_email = Some email',
               claim_name = Some name',
               claim_roles = Some roles',
               claim_iss = Some TOKEN_ISSUER,
               claim_aud = Some TOKEN_AUDIENCE,
               claim_exp = Some expire,
               claim_iat = Some now,
               claim_type = Some ''access''\<rparr>
      in jwt_encode p PRIVATE_KEY ALGORITHM)"

definition generate_refresh_token :: "timestamp \<Rightarrow> string \<Rightarrow> rat option \<Rightarrow> token_string" where
  "generate_refresh_token now user_id expires_delta =
     (let expires_delta = (case expires_delta of
                             None \<Rightarrow> of_int REFRESH_TOKEN_EXPIRY | Some d \<Rightarrow> d);
          expire = now + expires_delta;
          p = \<lparr>claim_sub = user_id,
               claim_email = None,
               claim_name = None,
               claim_roles = None,
               claim_iss = Some TOKEN_ISSUER,
               claim_aud = Some TOKEN_AUDIENCE,
               claim_exp = Some expire,
               claim_iat = Some now,
               claim_type = Some ''refresh''\<rparr>
      in jwt_encode p PRIVATE_KEY ALGORITHM)"

text \<open>The \<^verbatim>\<open>except\<close> clauses of \<^verbatim>\<open>validate_token\<close>, first match first.\<close>

fun on_jwt_error :: "jwt_error \<Rightarrow> value_error" where
  "on_jwt_error ExpiredSignatureError = TokenExpired"
| "on_jwt_error InvalidAudienceError = InvalidAudience"
| "on_jwt_error InvalidIssuerError = InvalidIssuer"
| "on_jwt_error e = ValidationFailed e"

definition validate_token :: "timestamp \<Rightarrow> token_string \<Rightarrow> string \<Rightarrow> value_error + token_data" where
  "validate_token now token token_type' =
     (case jwt_decode now token PUBLIC_KEY [ALGORITHM] TOKEN_AUDIENCE TOKEN_ISSUER True of
        Inl e \<Rightarrow> Inl (on_jwt_error e)
      | Inr p \<Rightarrow>
          if claim_type p \<noteq> Some token_type'
          then Inl (InvalidTokenType token_type' (claim_type p))
          else if token_type' = ''refresh''
          then Inr \<lparr>sub = claim_sub p, email = Some '''', name = Some '''', roles = [],
                    token_type = token_type'\<rparr>
          else Inr \<lparr>sub = claim_sub p, email = claim_email p, name = claim_name p,
                    roles = (case claim_roles p of None \<Rightarrow> [] | Some r \<Rightarrow> r),
                    token_type = token_type'\<rparr>)"

text \<open>
  \<^verbatim>\<open>refresh_access_token\<close>. An error of \<^verbatim>\<open>validate_token\<close> propagates;
  \<^verbatim>\<open>validate_token\<close> never returns \<^verbatim>\<open>None\<close>, so the test for it (the
  invalid-refresh-token error) never fires.
\<close>

definition refresh_access_token ::
  "timestamp \<Rightarrow> token_string \<Rightarrow> string \<Rightarrow> string \<Rightarrow> string \<Rightarrow> string list
     \<Rightarrow> value_error + token_string" where
  "refresh_access_token now refresh_token user_id email' name' roles' =
     (case validate_token now refresh_token ''refresh'' of
        Inl e \<Rightarrow> Inl e
      | Inr token_data \<Rightarrow>
          if sub token_data \<noteq> user_id then Inl UserIdMismatch
          else Inr (generate_access_token now user_id email' name' roles' None))"


text \<open>What a token string carries, for stating properties of tokens.\<close>

fun embedded_type :: "token_string \<Rightarrow> string option" where
  "embedded_type (Opaque s) = None"
| "embedded_type (JWS alg p signer) = claim_type p"

fun embedded_sub :: "token_string \<Rightarrow> string option" where
  "embedded_sub (Opaque s) = None"
| "embedded_sub (JWS alg p signer) = Some (claim_sub p)"

section \<open>Permission catalog: backend/auth/permissions.py\<close>

text \<open>
  \<^verbatim>\<open>Permission\<close> is a \<^verbatim>\<open>str\<close> enumeration: each member equals, and hashes as, its
  string value, so a member is its string.
\<close>

abbreviation FORM_CREATE :: string where "FORM_CREATE \<equiv> ''form:create''"
abbreviation FORM_READ :: string where "FORM_READ \<equiv> ''form:read''"
abbreviation FORM_EDIT :: string where "FORM_EDIT \<equiv> ''form:edit''"
abbreviation FORM_DELETE :: string where "FORM_DELETE \<equiv> ''form:delete''"
abbreviation FORM_ARCHIVE :: string where "FORM_ARCHIVE \<equiv> ''form:archive''"
abbreviation FORM_SUBMIT_FOR_REVIEW :: string where
  "FORM_SUBMIT_FOR_REVIEW \<equiv> ''form:submit_for_review''"
abbreviation FORM_REVIEW :: string where "FORM_REVIEW \<equiv> ''form:review''"
abbreviation FORM_APPROVE :: string where "FORM_APPROVE \<equiv> ''form:approve''"
abbreviation FORM_PUBLISH :: string where "FORM_PUBLISH \<equiv> ''form:publish''"
abbreviation BUSINESS_AREA_CREATE :: string where
  "BUSINESS_AREA_CREATE \<equiv> ''business_area:create''"
abbreviation BUSINESS_AREA_READ :: string where "BUSINESS_AREA_READ \<equiv> ''business_area:read''"
abbreviation BUSINESS_AREA_EDIT :: string where "BUSINESS_AREA_EDIT \<equiv> ''business_area:edit''"
abbreviation BUSINESS_AREA_DELETE :: string where
  "BUSINESS_AREA_DELETE \<equiv> ''business_area:delete''"
abbreviation BUSINESS_AREA_MANAGE :: string where
  "BUSINESS_AREA_MANAGE \<equiv> ''business_area:manage''"
abbreviation CATEGORY_CREATE :: string where "CATEGORY_CREATE \<equiv> ''category:create''"
abbreviation CATEGORY_READ :: string where "CATEGORY_READ \<equiv> ''category:read''"
abbreviation CATEGORY_EDIT :: string where "CATEGORY_EDIT \<equiv> ''category:edit''"
abbreviation CATEGORY_DELETE :: string where "CATEGORY_DELETE \<equiv> ''category:delete''"
abbreviation USER_CREATE :: string where "USER_CREATE \<equiv> ''user:create''"
abbreviation USER_READ :: string where "USER_READ \<equiv> ''user:read''"
abbreviation USER_EDIT :: string where "USER_EDIT \<equiv> ''user:edit''"
abbreviation USER_DELETE :: string where "USER_DELETE \<equiv> ''user:delete''"
abbreviation USER_MANAGE_ROLES :: string where "USER_MANAGE_ROLES \<equiv> ''user:manage_roles''"
abbreviation USER_MANAGE_PERMISSIONS :: string where
  "USER_MANAGE_PERMISSIONS \<equiv> ''user:manage_permissions''"
abbreviation ROLE_CREATE :: string where "ROLE_CREATE \<equiv> ''role:create''"
abbreviation ROLE_READ :: string where "ROLE_READ \<equiv> ''role:read''"
abbreviation ROLE_EDIT :: string where "ROLE_EDIT \<equiv> ''role:edit''"
abbreviation ROLE_DELETE :: string where "ROLE_DELETE \<equiv> ''role:delete''"
abbreviation AUDIT_LOG_VIEW :: string where "AUDIT_LOG_VIEW \<equiv> ''audit_log:view''"
abbreviation AUDIT_LOG_EXPORT :: string where "AUDIT_LOG_EXPORT \<equiv> ''audit_log:export''"
abbreviation REPORT_VIEW :: string where "REPORT_VIEW \<equiv> ''report:view''"
abbreviation SYSTEM_CONFIG :: string where "SYSTEM_CONFIG \<equiv> ''system:config''"
abbreviation SYSTEM_HEALTH :: string where "SYSTEM_HEALTH \<equiv> ''system:health''"

text \<open>
  \<^verbatim>\<open>get_inherited_permissions\<close>: three rules, each applied once to the permissions given.
\<close>

definition get_inherited_permissions :: "string list \<Rightarrow> string set" where
  "get_inherited_permissions permissions =
     (let result = set permissions;
          result = (if FORM_DELETE \<in> result \<or> ''form:delete'' \<in> set permissions
                    then insert FORM_EDIT result else result);
          result = (if USER_MANAGE_ROLES \<in> result \<or> ''user:manage_roles'' \<in> set permissions
                    then insert USER_READ result else result);
          result = (if BUSINESS_AREA_MANAGE \<in> result \<or> ''business_area:manage'' \<in> set permissions
                    then insert BUSINESS_AREA_READ result else result)
      in result)"

text \<open>The nested dictionary \<^verbatim>\<open>RESOURCE_ACTION_PERMISSIONS\<close>, keys in the source's order.\<close>

definition RESOURCE_ACTION_PERMISSIONS :: "(string \<times> (string \<times> string) list) list" where
  "RESOURCE_ACTION_PERMISSIONS =
     [(''forms'',
         [(''create'', FORM_CREATE), (''read'', FORM_READ), (''update'', FORM_EDIT),
          (''delete'', FORM_DELETE), (''archive'', FORM_ARCHIVE),
          (''submit'', FORM_SUBMIT_FOR_REVIEW), (''review'', FORM_REVIEW),
          (''approve'', FORM_APPROVE), (''publish'', FORM_PUBLISH)]),
      (''business_areas'',
         [(''create'', BUSINESS_AREA_CREATE), (''read'', BUSINESS_AREA_READ),
          (''update'', BUSINESS_AREA_EDIT), (''delete'', BUSINESS_AREA_DELETE),
          (''manage'', BUSINESS_AREA_MANAGE)]),
      (''categories'',
         [(''create'', CATEGORY_CREATE), (''read'', CATEGORY_READ),
          (''update'', CATEGORY_EDIT), (''delete'', CATEGORY_DELETE)]),
      (''users'',
         [(''create'', USER_CREATE), (''read'', USER_READ), (''update'', USER_EDIT),
          (''delete'', USER_DELETE), (''manage_roles'', USER_MANAGE_ROLES),
          (''manage_permissions'', USER_MANAGE_PERMISSIONS)]),
      (''roles'',
         [(''create'', ROLE_CREATE), (''read'', ROLE_READ), (''update'', ROLE_EDIT),
          (''delete'', ROLE_DELETE)]),
      (''audit'', [(''view'', AUDIT_LOG_VIEW), (''export'', AUDIT_LOG_EXPORT)]),
      (''reports'', [(''view'', REPORT_VIEW)]),
      (''system'', [(''config'', SYSTEM_CONFIG), (''health'', SYSTEM_HEALTH)])]"

text \<open>The \<^verbatim>\<open>ValueError\<close> of the catalog, with its message.\<close>

datatype lookup_error = ValueError string

definition get_permission_for_resource_action :: "string \<Rightarrow> string \<Rightarrow> lookup_error + string" where
  "get_permission_for_resource_action resource action =
     (case map_of RESOURCE_ACTION_PERMISSIONS resource of
        None \<Rightarrow> Inl (ValueError (''Unknown resource: '' @ resource))
      | Some actions \<Rightarrow>
          (case map_of actions action of
             None \<Rightarrow> Inl (ValueError (''Unknown action '' @ [CHR 0x27] @ action @ [CHR 0x27]
                                       @ '' for resource '' @ [CHR 0x27] @ resource @ [CHR 0x27]))
           | Some permission \<Rightarrow> Inr permission))"

section \<open>The store: backend/models.py\<close>

text \<open>
  The rows of the tables the authorization code reads and writes, with the columns it
  touches; a field is named table\_column. A nullable \<^verbatim>\<open>deleted_at\<close> is an option.
  \<^verbatim>\<open>Role.permissions\<close> is a JSON column: the code tells a list from a dictionary and
  ignores anything else.
\<close>

datatype json = JNull | JBool bool | JStr string

datatype permissions_column =
    PermList "string list"
  | PermDict "(string \<times> json) list"
  | PermOther

record user =
  users_id :: string
  users_is_active :: bool
  users_deleted_at :: "timestamp option"

record role =
  roles_id :: string
  roles_name :: string
  roles_permissions :: permissions_column
  roles_is_active :: bool
  roles_deleted_at :: "timestamp option"

record user_role =
  user_roles_user_id :: string
  user_roles_role_id :: string
  user_roles_deleted_at :: "timestamp option"

record audit_log =
  audit_log_entity_type :: string
  audit_log_entity_id :: string
  audit_log_action :: string
  audit_log_user_id :: string
  audit_log_old_values :: "(string \<rightharpoonup> json) option"
  audit_log_new_values :: "(string \<rightharpoonup> json) option"

text \<open>
  A session on the store: the committed tables, and whether the store is unable to
  complete a write (connection lost, disk full and the like), which is the
  environment's choice.
\<close>

record session =
  users_table :: "user list"
  roles_table :: "role list"
  user_roles_table :: "user_role list"
  audit_log_table :: "audit_log list"
  store_unavailable :: bool

datatype sql_error = OperationalError | IntegrityError

text \<open>
  \<^verbatim>\<open>db.add(entry); db.commit()\<close>: the write fails when the store is unavailable, and
  the store rejects a row whose \<^verbatim>\<open>user_id\<close> violates the foreign key to
  \<^verbatim>\<open>users.id\<close> that models.py declares. \<^verbatim>\<open>db.rollback()\<close> discards the pending
  row, which leaves the committed tables as they were.
\<close>

definition db_add_commit :: "session \<Rightarrow> audit_log \<Rightarrow> sql_error + session" where
  "db_add_commit db entry =
     (if store_unavailable db then Inl OperationalError
      else if audit_log_user_id entry \<notin> users_id ` set (users_table db) then Inl IntegrityError
      else Inr (db\<lparr>audit_log_table := audit_log_table db @ [entry]\<rparr>))"

definition db_rollback :: "session \<Rightarrow> session" where
  "db_rollback db = db"

text \<open>\<^verbatim>\<open>db.query(User).filter(User.id == user_id).first()\<close>\<close>

definition query_user_first :: "session \<Rightarrow> string \<Rightarrow> user option" where
  "query_user_first db user_id = find (\<lambda>u. users_id u = user_id) (users_table db)"

text \<open>
  \<^verbatim>\<open>db.query(UserRole).filter(UserRole.user_id == user_id, UserRole.deleted_at.is_(None)).all()\<close>
\<close>

definition query_user_roles :: "session \<Rightarrow> string \<Rightarrow> user_role list" where
  "query_user_roles db user_id =
     filter (\<lambda>ur. user_roles_user_id ur = user_id \<and> user_roles_deleted_at ur = None)
       (user_roles_table db)"

text \<open>The relationship \<^verbatim>\<open>user_role.role\<close>: the role row the assignment points to, if any.\<close>

definition user_role_role :: "session \<Rightarrow> user_role \<Rightarrow> role option" where
  "user_role_role db ur = find (\<lambda>r. roles_id r = user_roles_role_id ur) (roles_table db)"

section \<open>Permission resolver and authorization gate: backend/auth/authorization.py\<close>

text \<open>
  The body of the loop of \<^verbatim>\<open>get_user_permissions\<close>. The set \<^verbatim>\<open>all_permissions\<close> is
  held as the list of the elements put into it; \<^verbatim>\<open>list(all_permissions)\<close> is that
  list up to order and repetition, which \<^verbatim>\<open>get_inherited_permissions\<close> does not see.
\<close>

definition collect_role_permissions :: "session \<Rightarrow> string list \<Rightarrow> user_role \<Rightarrow> string list" where
  "collect_role_permissions db all_permissions ur =
     (case user_role_role db ur of
        None \<Rightarrow> all_permissions
      | Some role \<Rightarrow>
          if roles_is_active role \<and> roles_deleted_at role = None
          then (case roles_permissions role of
                  PermList ps \<Rightarrow> all_permissions @ ps
                | PermDict d \<Rightarrow> all_permissions @ map fst d
                | PermOther \<Rightarrow> all_permissions)
          else all_permissions)"

definition get_user_permissions :: "string \<Rightarrow> session \<Rightarrow> string set" where
  "get_user_permissions user_id db =
     (case query_user_first db user_id of
        None \<Rightarrow> {}
      | Some u \<Rightarrow>
          let user_roles = query_user_roles db user_id;
              all_permissions = foldl (collect_role_permissions db) [] user_roles
          in get_inherited_permissions all_permissions)"

definition has_permission :: "string \<Rightarrow> string \<Rightarrow> session \<Rightarrow> bool" where
  "has_permission user_id permission db = (permission \<in> get_user_permissions user_id db)"

definition has_any_permission :: "string \<Rightarrow> string list \<Rightarrow> session \<Rightarrow> bool" where
  "has_any_permission user_id permissions db =
     (let user_permissions = get_user_permissions user_id db
      in list_ex (\<lambda>perm. perm \<in> user_permissions) permissions)"

definition has_all_permissions :: "string \<Rightarrow> string list \<Rightarrow> session \<Rightarrow> bool" where
  "has_all_permissions user_id permissions db =
     (let user_permissions = get_user_permissions user_id db
      in list_all (\<lambda>perm. perm \<in> user_permissions) permissions)"

text \<open>
  \<^verbatim>\<open>log_permission_check\<close>. The permissions whose successful check is logged; the
  \<^verbatim>\<open>try\<close> block, which is the audit recorder (a failed write is rolled back and
  swallowed by \<^verbatim>\<open>except Exception\<close>); and the function, which returns at once without
  a session. The result is the session afterwards.
\<close>

definition sensitive_permissions :: "string list" where
  "sensitive_permissions =
     [USER_MANAGE_ROLES, USER_MANAGE_PERMISSIONS, ROLE_CREATE, ROLE_EDIT, ROLE_DELETE,
      SYSTEM_CONFIG, AUDIT_LOG_EXPORT]"

definition json_of :: "string option \<Rightarrow> json" where
  "json_of s = (case s of None \<Rightarrow> JNull | Some x \<Rightarrow> JStr x)"

definition permission_check_entry ::
  "string \<Rightarrow> string \<Rightarrow> bool \<Rightarrow> string option \<Rightarrow> string option \<Rightarrow> (string \<rightharpoonup> json) option
     \<Rightarrow> audit_log" where
  "permission_check_entry user_id permission allowed resource action details =
     \<lparr>audit_log_entity_type = ''permission'',
      audit_log_entity_id = permission,
      audit_log_action = ''permission_check'',
      audit_log_user_id = user_id,
      audit_log_old_values = Some Map.empty,
      audit_log_new_values =
        Some ([''permission'' \<mapsto> JStr permission, ''resource'' \<mapsto> json_of resource,
               ''action'' \<mapsto> json_of action, ''allowed'' \<mapsto> JBool allowed]
              ++ (case details of None \<Rightarrow> Map.empty | Some d \<Rightarrow> d))\<rparr>"

definition record_permission_check ::
  "session \<Rightarrow> string \<Rightarrow> string \<Rightarrow> bool \<Rightarrow> string option \<Rightarrow> string option
     \<Rightarrow> (string \<rightharpoonup> json) option \<Rightarrow> session" where
  "record_permission_check db user_id permission allowed resource action details =
     (case query_user_first db user_id of
        None \<Rightarrow> db
      | Some user_exists \<Rightarrow>
          (case db_add_commit db
                  (permission_check_entry user_id permission allowed resource action details) of
             Inl e \<Rightarrow> db_rollback db
           | Inr db' \<Rightarrow> db'))"

definition log_permission_check ::
  "string \<Rightarrow> string \<Rightarrow> bool \<Rightarrow> string option \<Rightarrow> string option \<Rightarrow> (string \<rightharpoonup> json) option
     \<Rightarrow> session option \<Rightarrow> session option" where
  "log_permission_check user_id permission allowed resource action details db =
     (case db of
        None \<Rightarrow> None
      | Some db \<Rightarrow>
          if \<not> allowed \<or> permission \<in> set sensitive_permissions
          then Some (record_permission_check db user_id permission allowed resource action details)
          else Some db)"

text \<open>
  \<^verbatim>\<open>HTTPException(status_code, detail)\<close>; the detail is a text, or \<^verbatim>\<open>str(e)\<close> of a
  token error.
\<close>

datatype http_detail = Text string | ErrorText value_error

datatype http_exception = HTTPException nat http_detail

text \<open>\<^verbatim>\<open>sep.join(xs)\<close>\<close>

fun join :: "string \<Rightarrow> string list \<Rightarrow> string" where
  "join sep [] = []"
| "join sep [x] = x"
| "join sep (x # y # ys) = x @ sep @ join sep (y # ys)"

text \<open>
  The dependencies take the session that the framework injects, so
  \<^verbatim>\<open>log_permission_check\<close> gets a session; had it returned for the lack of one, the
  session would be as before. Each dependency gives its outcome (the exception raised or
  the user returned) and the session afterwards.
\<close>

definition session_after :: "session \<Rightarrow> session option \<Rightarrow> session" where
  "session_after db r = (case r of None \<Rightarrow> db | Some db' \<Rightarrow> db')"

definition require_permission ::
  "string \<Rightarrow> string \<Rightarrow> token_data \<Rightarrow> session \<Rightarrow> (http_exception + token_data) \<times> session" where
  "require_permission resource action user db =
     (case get_permission_for_resource_action resource action of
        Inl (ValueError e) \<Rightarrow>
          (Inl (HTTPException 500 (Text (''Configuration error: '' @ e))), db)
      | Inr permission \<Rightarrow>
          let has_perm = has_permission (sub user) permission db;
              db' = session_after db
                      (log_permission_check (sub user) permission has_perm (Some resource)
                         (Some action) None (Some db))
          in if \<not> has_perm
             then (Inl (HTTPException 403
                          (Text (''Insufficient permissions. Required: '' @ resource @ '':'' @ action))),
                   db')
             else (Inr user, db'))"

definition require_any_permission ::
  "string list \<Rightarrow> token_data \<Rightarrow> session \<Rightarrow> (http_exception + token_data) \<times> session" where
  "require_any_permission permissions user db =
     (let has_perm = has_any_permission (sub user) permissions db
      in if \<not> has_perm
         then (Inl (HTTPException 403
                      (Text (''Insufficient permissions. Required one of: ''
                             @ join '', '' permissions))),
               session_after db
                 (log_permission_check (sub user) (join ''|'' permissions) False None None None
                    (Some db)))
         else (Inr user,
               session_after db
                 (log_permission_check (sub user) (join ''|'' permissions) True None None None
                    (Some db))))"

definition require_all_permissions ::
  "string list \<Rightarrow> token_data \<Rightarrow> session \<Rightarrow> (http_exception + token_data) \<times> session" where
  "require_all_permissions permissions user db =
     (let has_perm = has_all_permissions (sub user) permissions db
      in if \<not> has_perm
         then (Inl (HTTPException 403
                      (Text (''Insufficient permissions. Required all of: ''
                             @ join '', '' permissions))),
               session_after db
                 (log_permission_check (sub user) (join ''&'' permissions) False None None None
                    (Some db)))
         else (Inr user,
               session_after db
                 (log_permission_check (sub user) (join ''&'' permissions) True None None None
                    (Some db))))"

section \<open>Audit helper of the form service: backend/services/forms.py\<close>

text \<open>\<^verbatim>\<open>FormService._audit_log\<close>: the write, rolled back and swallowed when it fails.\<close>

definition FormService_audit_log ::
  "session \<Rightarrow> string \<Rightarrow> string \<Rightarrow> string \<Rightarrow> string \<Rightarrow> (string \<rightharpoonup> json) option
     \<Rightarrow> (string \<rightharpoonup> json) option \<Rightarrow> session" where
  "FormService_audit_log db entity_type entity_id action user_id old_values new_values =
     (case db_add_commit db
             \<lparr>audit_log_entity_type = entity_type,
              audit_log_entity_id = entity_id,
              audit_log_action = action,
              audit_log_user_id = user_id,
              audit_log_old_values = old_values,
              audit_log_new_values = new_values\<rparr> of
        Inl e \<Rightarrow> db_rollback db
      | Inr db' \<Rightarrow> db')"

section \<open>Request authentication: backend/auth/dependencies.py\<close>

text \<open>
  The process environment is a map from names to values. \<^verbatim>\<open>str.lower\<close> on the ASCII
  letters; \<^verbatim>\<open>os.getenv(name, default)\<close>.
\<close>

definition char_lower :: "char \<Rightarrow> char" where
  "char_lower c =
     (let n = (of_char c :: nat) in if 65 \<le> n \<and> n \<le> 90 then char_of (n + 32) else c)"

definition lower :: "string \<Rightarrow> string" where
  "lower s = map char_lower s"

definition getenv :: "(string \<rightharpoonup> string) \<Rightarrow> string \<Rightarrow> string \<Rightarrow> string" where
  "getenv environ key default' = (case environ key of None \<Rightarrow> default' | Some v \<Rightarrow> v)"

definition ENVIRONMENT :: "(string \<rightharpoonup> string) \<Rightarrow> string" where
  "ENVIRONMENT environ = lower (getenv environ ''ENVIRONMENT'' ''production'')"

definition IS_DEVELOPMENT :: "(string \<rightharpoonup> string) \<Rightarrow> bool" where
  "IS_DEVELOPMENT environ = (ENVIRONMENT environ = ''development'')"

text \<open>
  \<^verbatim>\<open>get_current_user\<close>, on the bearer string of the request. \<^verbatim>\<open>validate_token\<close>
  returns token data or raises, so the test for \<^verbatim>\<open>None\<close> never fires.
\<close>

definition get_current_user ::
  "(string \<rightharpoonup> string) \<Rightarrow> timestamp \<Rightarrow> token_string \<Rightarrow> http_exception + token_data" where
  "get_current_user environ now token =
     (if IS_DEVELOPMENT environ \<and> token = Opaque ''demo-token''
      then Inr \<lparr>sub = ''550e8400-e29b-41d4-a716-446655440000'',
                email = Some ''demo@example.com'',
                name = Some ''Demo User'',
                roles = [''admin''],
                token_type = ''access''\<rparr>
      else (case validate_token now token ''access'' of
              Inr token_data \<Rightarrow> Inr token_data
            | Inl e \<Rightarrow> Inl (HTTPException 401 (ErrorText e))))"

section \<open>Example data\<close>




text \<open>
  A store with the role \<open>staff_manager\<close> (which grants \<open>form:delete\<close>) and the role
  \<open>reviewer\<close>; user \<open>u1\<close> holds both, user \<open>u2\<close> holds none and user \<open>u9\<close> is not
  in the store. The second store lists the same assignments in the other order.
\<close>

definition example_roles :: "role list" where
  "example_roles =
     [\<lparr>roles_id = ''r1'', roles_name = ''staff_manager'',
       roles_permissions = PermList [FORM_READ, FORM_DELETE, BUSINESS_AREA_MANAGE],
       roles_is_active = True, roles_deleted_at = None\<rparr>,
      \<lparr>roles_id = ''r2'', roles_name = ''reviewer'',
       roles_permissions = PermList [FORM_READ, FORM_REVIEW, FORM_APPROVE],
       roles_is_active = True, roles_deleted_at = None\<rparr>]"

definition example_users :: "user list" where
  "example_users =
     [\<lparr>users_id = ''u1'', users_is_active = True, users_deleted_at = None\<rparr>,
      \<lparr>users_id = ''u2'', users_is_active = True, users_deleted_at = None\<rparr>]"

definition assignment_r1 :: user_role where
  "assignment_r1 =
     \<lparr>user_roles_user_id = ''u1'', user_roles_role_id = ''r1'', user_roles_deleted_at = None\<rparr>"

definition assignment_r2 :: user_role where
  "assignment_r2 =
     \<lparr>user_roles_user_id = ''u1'', user_roles_role_id = ''r2'', user_roles_deleted_at = None\<rparr>"

definition example_db :: session where
  "example_db =
     \<lparr>users_table = example_users, roles_table = example_roles,
      user_roles_table = [assignment_r1, assignment_r2], audit_log_table = [],
      store_unavailable = False\<rparr>"

definition example_db_reordered :: session where
  "example_db_reordered =
     \<lparr>users_table = example_users, roles_table = example_roles,
      user_roles_table = [assignment_r2, assignment_r1], audit_log_table = [],
      store_unavailable = False\<rparr>"

text \<open>
  A store in which user \<open>a1\<close> holds an active role that grants, among others,
  \<open>system:config\<close>, \<open>system:health\<close>, \<open>role:create\<close> and \<open>role:edit\<close>; the
  principal of that user; and the same store when it cannot complete a write.
\<close>

definition admin_db :: session where
  "admin_db =
     \<lparr>users_table = [\<lparr>users_id = ''a1'', users_is_active = True, users_deleted_at = None\<rparr>],
      roles_table =
        [\<lparr>roles_id = ''r0'', roles_name = ''admin'',
          roles_permissions =
            PermList [FORM_READ, ROLE_CREATE, ROLE_EDIT, SYSTEM_CONFIG, SYSTEM_HEALTH],
          roles_is_active = True, roles_deleted_at = None\<rparr>],
      user_roles_table =
        [\<lparr>user_roles_user_id = ''a1'', user_roles_role_id = ''r0'',
          user_roles_deleted_at = None\<rparr>],
      audit_log_table = [],
      store_unavailable = False\<rparr>"

definition admin_user :: token_data where
  "admin_user =
     \<lparr>sub = ''a1'', email = Some ''admin@test.com'', name = Some ''Admin User'',
      roles = [''admin''], token_type = ''access''\<rparr>"

definition admin_db_unavailable :: session where
  "admin_db_unavailable = admin_db\<lparr>store_unavailable := True\<rparr>"

section \<open>Properties of the token service\<close>

lemma TOKEN_AUDIENCE_nonempty [simp]: "TOKEN_AUDIENCE \<noteq> []" "[] \<noteq> TOKEN_AUDIENCE"
  by (simp_all add: TOKEN_AUDIENCE_def)

lemma py_int_le: "0 \<le> x \<Longrightarrow> of_int (py_int x) \<le> x"
  by (simp add: py_int_def)


lemma validate_token_InrD:
  "validate_token now token t = Inr td \<Longrightarrow>
     \<exists>p. jwt_decode now token PUBLIC_KEY [ALGORITHM] TOKEN_AUDIENCE TOKEN_ISSUER True = Inr p
        \<and> claim_type p = Some t \<and> sub td = claim_sub p \<and> token_type td = t"
  by (auto simp: validate_token_def split: sum.splits if_splits)

lemma jwt_decode_InrD:
  "jwt_decode now token key algs a i v = Inr p \<Longrightarrow>
     \<exists>alg signer. token = JWS alg p signer \<and> alg \<in> set algs \<and> verifies key signer"
  by (auto simp: jwt_decode_def validate_claims_def
      split: token_string.splits if_splits option.splits)

text \<open>
  A token signed by the service with its issuer and audience decodes to its claims from
  the moment of issue until the truncated expiry.
\<close>

lemma decode_minted:
  assumes "0 \<le> now" "now \<le> now'" "now' < of_int (py_int e)"
  shows "jwt_decode now'
           (JWS ALGORITHM
              \<lparr>claim_sub = u, claim_email = em, claim_name = n, claim_roles = r,
               claim_iss = Some TOKEN_ISSUER, claim_aud = Some TOKEN_AUDIENCE,
               claim_exp = Some e, claim_iat = Some now, claim_type = ty\<rparr> PRIVATE_KEY)
           PUBLIC_KEY [ALGORITHM] TOKEN_AUDIENCE TOKEN_ISSUER v
         = Inr \<lparr>claim_sub = u, claim_email = em, claim_name = n, claim_roles = r,
                claim_iss = Some TOKEN_ISSUER, claim_aud = Some TOKEN_AUDIENCE,
                claim_exp = Some e, claim_iat = Some now, claim_type = ty\<rparr>"
proof -
  have "of_int (py_int now) \<le> now'"
    using py_int_le[OF assms(1)] assms(2) by linarith
  then show ?thesis
    using assms(3)
    by (simp add: jwt_decode_def validate_claims_def PRIVATE_KEY_def PUBLIC_KEY_def)
qed

text \<open>
  C1. A token is accepted only as the type it embeds: when \<open>validate_token\<close> accepts
  a token as type \<open>t\<close>, the token embeds \<open>t\<close>, and presenting the same token as any
  other type is rejected with the type-mismatch error. In particular a refresh token
  minted by the service and still valid is rejected as an access token, and an access
  token as a refresh token.
\<close>

theorem validate_token_type_discriminator:
  "(validate_token now token t = Inr td \<longrightarrow> embedded_type token = Some t \<and> token_type td = t)
   \<and> (validate_token now token t = Inr td \<and> t' \<noteq> t \<longrightarrow>
        validate_token now token t' = Inl (InvalidTokenType t' (Some t)))
   \<and> (0 \<le> now0 \<and> now0 \<le> now
        \<and> now < of_int (py_int (now0 + (case d of None \<Rightarrow> of_int REFRESH_TOKEN_EXPIRY
                                         | Some x \<Rightarrow> x))) \<longrightarrow>
        validate_token now (generate_refresh_token now0 user_id d) ''access''
          = Inl (InvalidTokenType ''access'' (Some ''refresh'')))
   \<and> (0 \<le> now0 \<and> now0 \<le> now
        \<and> now < of_int (py_int (now0 + (case d of None \<Rightarrow> of_int ACCESS_TOKEN_EXPIRY
                                         | Some x \<Rightarrow> x))) \<longrightarrow>
        validate_token now (generate_access_token now0 user_id em n r d) ''refresh''
          = Inl (InvalidTokenType ''refresh'' (Some ''access'')))"
proof (intro conjI impI)
  assume a: "validate_token now token t = Inr td"
  from validate_token_InrD[OF a] obtain p where
    p: "jwt_decode now token PUBLIC_KEY [ALGORITHM] TOKEN_AUDIENCE TOKEN_ISSUER True = Inr p"
      "claim_type p = Some t" "token_type td = t" by blast
  from jwt_decode_InrD[OF p(1)] show "embedded_type token = Some t"
    using p(2) by auto
  show "token_type td = t" by (rule p(3))
next
  assume a: "validate_token now token t = Inr td \<and> t' \<noteq> t"
  from validate_token_InrD[of now token t td] a obtain p where
    p: "jwt_decode now token PUBLIC_KEY [ALGORITHM] TOKEN_AUDIENCE TOKEN_ISSUER True = Inr p"
      "claim_type p = Some t" by blast
  show "validate_token now token t' = Inl (InvalidTokenType t' (Some t))"
    using a p by (auto simp: validate_token_def)
next
  assume "0 \<le> now0 \<and> now0 \<le> now
        \<and> now < of_int (py_int (now0 + (case d of None \<Rightarrow> of_int REFRESH_TOKEN_EXPIRY
                                         | Some x \<Rightarrow> x)))"
  then show "validate_token now (generate_refresh_token now0 user_id d) ''access''
          = Inl (InvalidTokenType ''access'' (Some ''refresh''))"
    by (simp add: validate_token_def generate_refresh_token_def jwt_encode_def decode_minted)
next
  assume "0 \<le> now0 \<and> now0 \<le> now
        \<and> now < of_int (py_int (now0 + (case d of None \<Rightarrow> of_int ACCESS_TOKEN_EXPIRY
                                         | Some x \<Rightarrow> x)))"
  then show "validate_token now (generate_access_token now0 user_id em n r d) ''refresh''
          = Inl (InvalidTokenType ''refresh'' (Some ''access''))"
    by (simp add: validate_token_def generate_access_token_def jwt_encode_def decode_minted)
qed

text \<open>
  The same at a concrete moment: tokens issued at second 1000 for user \<open>u1\<close> and
  presented one minute later. The refresh token validates as a refresh token and is
  rejected as an access token; the access token is rejected as a refresh token.
\<close>

lemma refresh_token_example:
  "validate_token 1060 (generate_refresh_token 1000 ''u1'' None) ''refresh''
     = Inr \<lparr>sub = ''u1'', email = Some '''', name = Some '''', roles = [],
            token_type = ''refresh''\<rparr>"
  by (simp add: validate_token_def generate_refresh_token_def jwt_encode_def jwt_decode_def
      validate_claims_def PRIVATE_KEY_def PUBLIC_KEY_def py_int_def REFRESH_TOKEN_EXPIRY_def
      ALGORITHM_def TOKEN_ISSUER_def TOKEN_AUDIENCE_def)

theorem validate_token_type_discriminator_witness:
  "validate_token 1060 (generate_refresh_token 1000 ''u1'' None) ''refresh''
     = Inr \<lparr>sub = ''u1'', email = Some '''', name = Some '''', roles = [],
            token_type = ''refresh''\<rparr>
   \<and> embedded_type (generate_refresh_token 1000 ''u1'' None) = Some ''refresh''
   \<and> validate_token 1060 (generate_refresh_token 1000 ''u1'' None) ''access''
       = Inl (InvalidTokenType ''access'' (Some ''refresh''))
   \<and> validate_token 1060 (generate_access_token 1000 ''u1'' ''e@x'' ''N'' [''admin''] None)
        ''refresh''
       = Inl (InvalidTokenType ''refresh'' (Some ''access''))"
proof -
  have t: "(0::rat) \<le> 1000 \<and> (1000::rat) \<le> 1060
        \<and> (1060::rat) < of_int (py_int (1000 + of_int REFRESH_TOKEN_EXPIRY))
        \<and> (1060::rat) < of_int (py_int (1000 + of_int ACCESS_TOKEN_EXPIRY))"
    by (simp add: py_int_def REFRESH_TOKEN_EXPIRY_def ACCESS_TOKEN_EXPIRY_def)
  have ne: "''access'' \<noteq> ''refresh''" by simp
  from validate_token_type_discriminator
         [of 1060 "generate_refresh_token 1000 ''u1'' None" "''refresh''"
             "\<lparr>sub = ''u1'', email = Some '''', name = Some '''', roles = [],
               token_type = ''refresh''\<rparr>"
             "''access''" 1000 None "''u1''" "''e@x''" "''N''" "[''admin'']"]
       refresh_token_example t ne
  show ?thesis by simp
qed

text \<open>
  C2. When the refresh token validates but embeds a subject other than the one supplied,
  \<open>refresh_access_token\<close> fails with the user-id mismatch error. Whatever the token
  string, a token is returned only when the refresh token embeds the supplied subject,
  and the token returned is for that subject; with any other embedded subject the call
  fails.
\<close>

theorem refresh_access_token_subject:
  "(validate_token now refresh_token ''refresh'' = Inr td
      \<and> embedded_sub refresh_token \<noteq> Some user_id \<longrightarrow>
      refresh_access_token now refresh_token user_id em n r = Inl UserIdMismatch)
   \<and> (refresh_access_token now refresh_token user_id em n r = Inr tok \<longrightarrow>
        embedded_sub refresh_token = Some user_id \<and> embedded_sub tok = Some user_id)
   \<and> (embedded_sub refresh_token \<noteq> Some user_id \<longrightarrow>
        (\<exists>e. refresh_access_token now refresh_token user_id em n r = Inl e))"
proof -
  have sub_td: "embedded_sub refresh_token = Some (sub td')"
    if "validate_token now refresh_token ''refresh'' = Inr td'" for td'
  proof -
    from validate_token_InrD[OF that] obtain p where
      p: "jwt_decode now refresh_token PUBLIC_KEY [ALGORITHM] TOKEN_AUDIENCE TOKEN_ISSUER True
            = Inr p"
         "sub td' = claim_sub p" by blast
    from jwt_decode_InrD[OF p(1)] p(2) show ?thesis by auto
  qed
  have a: "refresh_access_token now refresh_token user_id em n r = Inl UserIdMismatch"
    if "validate_token now refresh_token ''refresh'' = Inr td"
       "embedded_sub refresh_token \<noteq> Some user_id"
    using that sub_td[OF that(1)] by (simp add: refresh_access_token_def)
  have b: "embedded_sub refresh_token = Some user_id \<and> embedded_sub tok' = Some user_id"
    if "refresh_access_token now refresh_token user_id em n r = Inr tok'" for tok'
  proof -
    from that obtain td' where v: "validate_token now refresh_token ''refresh'' = Inr td'"
      and s: "sub td' = user_id"
      and t: "tok' = generate_access_token now user_id em n r None"
      by (auto simp: refresh_access_token_def split: sum.splits if_splits)
    show ?thesis
      using sub_td[OF v] s t by (simp add: generate_access_token_def jwt_encode_def)
  qed
  have c: "\<exists>e. refresh_access_token now refresh_token user_id em n r = Inl e"
    if "embedded_sub refresh_token \<noteq> Some user_id"
    using b that by (cases "refresh_access_token now refresh_token user_id em n r") auto
  show ?thesis using a b c by blast
qed

text \<open>
  At a concrete input: the refresh token of user \<open>u1\<close>, presented for user \<open>u2\<close>,
  gives the mismatch error; presented for \<open>u1\<close> it gives an access token for \<open>u1\<close>.
\<close>

lemma refresh_access_token_example:
  "refresh_access_token 1060 (generate_refresh_token 1000 ''u1'' None) ''u1'' ''e@x'' ''N''
     [''admin'']
   = Inr (generate_access_token 1060 ''u1'' ''e@x'' ''N'' [''admin''] None)"
  by (simp add: refresh_access_token_def refresh_token_example)

theorem refresh_access_token_subject_witness:
  "embedded_sub (generate_refresh_token 1000 ''u1'' None) \<noteq> Some ''u2''
   \<and> refresh_access_token 1060 (generate_refresh_token 1000 ''u1'' None) ''u2'' ''e@x'' ''N''
        [''admin''] = Inl UserIdMismatch
   \<and> embedded_sub (generate_refresh_token 1000 ''u1'' None) = Some ''u1''
   \<and> embedded_sub (generate_access_token 1060 ''u1'' ''e@x'' ''N'' [''admin''] None) = Some ''u1''"
proof -
  have ne: "embedded_sub (generate_refresh_token 1000 ''u1'' None) \<noteq> Some ''u2''"
    by (simp add: generate_refresh_token_def jwt_encode_def)
  from refresh_access_token_subject
         [of 1060 "generate_refresh_token 1000 ''u1'' None"
             "\<lparr>sub = ''u1'', email = Some '''', name = Some '''', roles = [],
               token_type = ''refresh''\<rparr>"
             "''u2''" "''e@x''" "''N''" "[''admin'']"]
       refresh_token_example ne
  have m: "refresh_access_token 1060 (generate_refresh_token 1000 ''u1'' None) ''u2'' ''e@x''
             ''N'' [''admin''] = Inl UserIdMismatch"
    by blast
  from refresh_access_token_subject
         [of 1060 "generate_refresh_token 1000 ''u1'' None" undefined
             "''u1''" "''e@x''" "''N''" "[''admin'']"
             "generate_access_token 1060 ''u1'' ''e@x'' ''N'' [''admin''] None"]
       refresh_access_token_example
  have s: "embedded_sub (generate_refresh_token 1000 ''u1'' None) = Some ''u1''
           \<and> embedded_sub (generate_access_token 1060 ''u1'' ''e@x'' ''N'' [''admin''] None)
               = Some ''u1''"
    by blast
  from ne m s show ?thesis by blast
qed

text \<open>
  C5. An access token issued at \<open>now\<close> and validated as an access token at any moment
  from \<open>now\<close> until its truncated expiry gives back the subject, email, name and role
  list it was issued with; with the default lifetime this holds at the moment of issue.
  The clock is at or after the epoch.
\<close>

theorem access_token_round_trip:
  "(0 \<le> now \<and> now \<le> now'
      \<and> now' < of_int (py_int (now + (case d of None \<Rightarrow> of_int ACCESS_TOKEN_EXPIRY
                                       | Some x \<Rightarrow> x))) \<longrightarrow>
     validate_token now' (generate_access_token now user_id em n r d) ''access''
       = Inr \<lparr>sub = user_id, email = Some em, name = Some n, roles = r,
              token_type = ''access''\<rparr>)
   \<and> (0 \<le> now \<longrightarrow>
     validate_token now (generate_access_token now user_id em n r None) ''access''
       = Inr \<lparr>sub = user_id, email = Some em, name = Some n, roles = r,
              token_type = ''access''\<rparr>)"
proof (intro conjI impI)
  assume "0 \<le> now \<and> now \<le> now'
      \<and> now' < of_int (py_int (now + (case d of None \<Rightarrow> of_int ACCESS_TOKEN_EXPIRY
                                       | Some x \<Rightarrow> x)))"
  then show "validate_token now' (generate_access_token now user_id em n r d) ''access''
       = Inr \<lparr>sub = user_id, email = Some em, name = Some n, roles = r,
              token_type = ''access''\<rparr>"
    by (simp add: validate_token_def generate_access_token_def jwt_encode_def decode_minted)
next
  assume n: "0 \<le> now"
  have "now + 1800 - 1 < of_int \<lfloor>now + 1800\<rfloor>" by linarith
  then have "now < of_int (py_int (now + of_int ACCESS_TOKEN_EXPIRY))"
    using n by (simp add: py_int_def ACCESS_TOKEN_EXPIRY_def)
  then show "validate_token now (generate_access_token now user_id em n r None) ''access''
       = Inr \<lparr>sub = user_id, email = Some em, name = Some n, roles = r,
              token_type = ''access''\<rparr>"
    using n by (simp add: validate_token_def generate_access_token_def jwt_encode_def decode_minted)
qed

theorem access_token_round_trip_witness:
  "(0::rat) \<le> 1000 \<and> (1000::rat) \<le> 1000 + 1799 / 2
   \<and> (1000 + 1799 / 2 :: rat) < of_int (py_int (1000 + of_int ACCESS_TOKEN_EXPIRY))
   \<and> validate_token (1000 + 1799 / 2)
        (generate_access_token 1000 ''u1'' ''e@x'' ''N'' [''admin'', ''reviewer''] None) ''access''
       = Inr \<lparr>sub = ''u1'', email = Some ''e@x'', name = Some ''N'',
              roles = [''admin'', ''reviewer''], token_type = ''access''\<rparr>
   \<and> validate_token 1000
        (generate_access_token 1000 ''u1'' ''e@x'' ''N'' [''admin'', ''reviewer''] None) ''access''
       = Inr \<lparr>sub = ''u1'', email = Some ''e@x'', name = Some ''N'',
              roles = [''admin'', ''reviewer''], token_type = ''access''\<rparr>"
proof -
  have h: "(0::rat) \<le> 1000 \<and> (1000::rat) \<le> 1000 + 1799 / 2
     \<and> (1000 + 1799 / 2 :: rat) < of_int (py_int (1000 + of_int ACCESS_TOKEN_EXPIRY))"
    by (simp add: py_int_def ACCESS_TOKEN_EXPIRY_def)
  from access_token_round_trip
         [of 1000 "1000 + 1799 / 2" None "''u1''" "''e@x''" "''N''" "[''admin'', ''reviewer'']"] h
  show ?thesis by simp
qed






section \<open>Properties of the permission resolver\<close>

text \<open>The inheritance pass sees only which permissions are present.\<close>

lemma get_inherited_permissions_set:
  "get_inherited_permissions permissions =
     set permissions
     \<union> (if FORM_DELETE \<in> set permissions then {FORM_EDIT} else {})
     \<union> (if USER_MANAGE_ROLES \<in> set permissions then {USER_READ} else {})
     \<union> (if BUSINESS_AREA_MANAGE \<in> set permissions then {BUSINESS_AREA_READ} else {})"
  by (auto simp: get_inherited_permissions_def Let_def)

lemma get_inherited_permissions_cong:
  "set xs = set ys \<Longrightarrow> get_inherited_permissions xs = get_inherited_permissions ys"
  by (simp only: get_inherited_permissions_set)

lemma collect_role_permissions_set:
  "set (collect_role_permissions db acc ur)
     = set acc \<union> set (collect_role_permissions db [] ur)"
  by (auto simp: collect_role_permissions_def split: option.splits permissions_column.splits)

lemma foldl_collect_set:
  "set (foldl (collect_role_permissions db) acc urs)
     = set acc \<union> (\<Union>ur \<in> set urs. set (collect_role_permissions db [] ur))"
proof (induction urs arbitrary: acc)
  case Nil
  then show ?case by simp
next
  case (Cons ur urs)
  show ?case
    by (simp add: Cons.IH collect_role_permissions_set[of db acc ur] Un_assoc)
qed

lemma query_user_first_None:
  "query_user_first db user_id = None \<longleftrightarrow> user_id \<notin> users_id ` set (users_table db)"
  by (auto simp: query_user_first_def find_None_iff)

text \<open>
  C3. For a principal identifier that is not in the store, or all of whose role
  assignments are soft-deleted (or that has none), \<open>get_user_permissions\<close> returns the
  empty set, and \<open>has_permission\<close> is false for every permission.
\<close>

theorem get_user_permissions_empty:
  "user_id \<notin> users_id ` set (users_table db)
   \<or> (\<forall>ur \<in> set (user_roles_table db).
         user_roles_user_id ur = user_id \<longrightarrow> user_roles_deleted_at ur \<noteq> None)
   \<Longrightarrow> get_user_permissions user_id db = {}
       \<and> (\<forall>permission. \<not> has_permission user_id permission db)"
proof -
  assume a: "user_id \<notin> users_id ` set (users_table db)
   \<or> (\<forall>ur \<in> set (user_roles_table db).
         user_roles_user_id ur = user_id \<longrightarrow> user_roles_deleted_at ur \<noteq> None)"
  have "get_user_permissions user_id db = {}"
  proof (cases "query_user_first db user_id")
    case None
    then show ?thesis by (simp add: get_user_permissions_def)
  next
    case (Some u)
    then have "user_id \<in> users_id ` set (users_table db)"
      using query_user_first_None[of db user_id] by auto
    with a have "query_user_roles db user_id = []"
      by (auto simp: query_user_roles_def filter_empty_conv)
    then show ?thesis
      using Some by (simp add: get_user_permissions_def get_inherited_permissions_set)
  qed
  then show ?thesis by (simp add: has_permission_def)
qed

theorem get_user_permissions_empty_witness:
  "''u9'' \<notin> users_id ` set (users_table example_db)
   \<and> get_user_permissions ''u9'' example_db = {}
   \<and> \<not> has_permission ''u9'' FORM_READ example_db
   \<and> ''u2'' \<in> users_id ` set (users_table example_db)
   \<and> filter (\<lambda>ur. user_roles_user_id ur = ''u2'') (user_roles_table example_db) = []
   \<and> get_user_permissions ''u2'' example_db = {}
   \<and> \<not> has_permission ''u2'' FORM_READ example_db"
proof -
  have h9: "''u9'' \<notin> users_id ` set (users_table example_db)"
    by (simp add: example_db_def example_users_def)
  have h2: "\<forall>ur \<in> set (user_roles_table example_db).
         user_roles_user_id ur = ''u2'' \<longrightarrow> user_roles_deleted_at ur \<noteq> None"
    by (simp add: example_db_def assignment_r1_def assignment_r2_def)
  from get_user_permissions_empty[of "''u9''" example_db] h9
  have r9: "get_user_permissions ''u9'' example_db = {}
            \<and> \<not> has_permission ''u9'' FORM_READ example_db" by blast
  from get_user_permissions_empty[of "''u2''" example_db] h2
  have r2: "get_user_permissions ''u2'' example_db = {}
            \<and> \<not> has_permission ''u2'' FORM_READ example_db" by blast
  have u2: "''u2'' \<in> users_id ` set (users_table example_db)
      \<and> filter (\<lambda>ur. user_roles_user_id ur = ''u2'') (user_roles_table example_db) = []"
    by (simp add: example_db_def example_users_def assignment_r1_def assignment_r2_def)
  from h9 u2 r9 r2 show ?thesis by blast
qed

lemma collect_role_permissions_roles_table:
  "roles_table db' = roles_table db \<Longrightarrow>
     collect_role_permissions db' = collect_role_permissions db"
  by (intro ext) (simp add: collect_role_permissions_def user_role_role_def)

lemma get_user_permissions_set:
  "user_id \<in> users_id ` set (users_table db) \<Longrightarrow>
     get_user_permissions user_id db
       = get_inherited_permissions
           (concat (map (collect_role_permissions db []) (query_user_roles db user_id)))"
proof -
  assume "user_id \<in> users_id ` set (users_table db)"
  then obtain u where "query_user_first db user_id = Some u"
    using query_user_first_None[of db user_id] by (cases "query_user_first db user_id") auto
  then show ?thesis
    by (simp add: get_user_permissions_def foldl_collect_set
        get_inherited_permissions_cong[of "foldl (collect_role_permissions db) []
          (query_user_roles db user_id)"
          "concat (map (collect_role_permissions db []) (query_user_roles db user_id))"])
qed

text \<open>
  C4. When the principal is in the store and one of its assignments that is not
  soft-deleted points to an active role that is not soft-deleted and grants
  \<open>form:delete\<close> (as an element of its permission list or a key of its permission
  dictionary), the set returned by \<open>get_user_permissions\<close> contains \<open>form:edit\<close>.
  The set returned is the same for every ordering of the role assignments.
\<close>

theorem get_user_permissions_form_delete:
  "(user_id \<in> users_id ` set (users_table db)
      \<and> ur \<in> set (user_roles_table db)
      \<and> user_roles_user_id ur = user_id \<and> user_roles_deleted_at ur = None
      \<and> user_role_role db ur = Some role
      \<and> roles_is_active role \<and> roles_deleted_at role = None
      \<and> (roles_permissions role = PermList ps \<and> FORM_DELETE \<in> set ps
          \<or> roles_permissions role = PermDict d \<and> FORM_DELETE \<in> fst ` set d) \<longrightarrow>
      FORM_DELETE \<in> get_user_permissions user_id db
      \<and> FORM_EDIT \<in> get_user_permissions user_id db)
   \<and> (mset assignments = mset (user_roles_table db) \<longrightarrow>
        get_user_permissions user_id (db\<lparr>user_roles_table := assignments\<rparr>)
          = get_user_permissions user_id db)"
proof (intro conjI impI)
  assume a: "user_id \<in> users_id ` set (users_table db)
      \<and> ur \<in> set (user_roles_table db)
      \<and> user_roles_user_id ur = user_id \<and> user_roles_deleted_at ur = None
      \<and> user_role_role db ur = Some role
      \<and> roles_is_active role \<and> roles_deleted_at role = None
      \<and> (roles_permissions role = PermList ps \<and> FORM_DELETE \<in> set ps
          \<or> roles_permissions role = PermDict d \<and> FORM_DELETE \<in> fst ` set d)"
  then have q: "ur \<in> set (query_user_roles db user_id)"
    by (simp add: query_user_roles_def)
  from a have "FORM_DELETE \<in> set (collect_role_permissions db [] ur)"
    by (elim conjE disjE) (simp_all add: collect_role_permissions_def)
  with q have "FORM_DELETE
      \<in> set (concat (map (collect_role_permissions db []) (query_user_roles db user_id)))"
    by auto
  then have "FORM_DELETE \<in> get_user_permissions user_id db
      \<and> FORM_EDIT \<in> get_user_permissions user_id db"
    using a by (simp only: get_user_permissions_set get_inherited_permissions_set) simp
  then show "FORM_DELETE \<in> get_user_permissions user_id db"
    and "FORM_EDIT \<in> get_user_permissions user_id db" by simp_all
next
  assume m: "mset assignments = mset (user_roles_table db)"
  then have s: "set assignments = set (user_roles_table db)"
    by (rule mset_eq_setD)
  let ?db' = "db\<lparr>user_roles_table := assignments\<rparr>"
  have c: "collect_role_permissions ?db' = collect_role_permissions db"
    by (rule collect_role_permissions_roles_table) simp
  have u: "query_user_first ?db' user_id = query_user_first db user_id"
    by (simp add: query_user_first_def)
  have q: "set (query_user_roles ?db' user_id) = set (query_user_roles db user_id)"
    using s by (simp add: query_user_roles_def)
  have "set (foldl (collect_role_permissions db) [] (query_user_roles ?db' user_id))
      = set (foldl (collect_role_permissions db) [] (query_user_roles db user_id))"
    by (simp only: foldl_collect_set q)
  then have "get_inherited_permissions
        (foldl (collect_role_permissions db) [] (query_user_roles ?db' user_id))
      = get_inherited_permissions
        (foldl (collect_role_permissions db) [] (query_user_roles db user_id))"
    by (rule get_inherited_permissions_cong)
  then show "get_user_permissions user_id ?db' = get_user_permissions user_id db"
    unfolding get_user_permissions_def c u Let_def by (simp split: option.splits)
qed

text \<open>
  In the example store user \<open>u1\<close> holds \<open>staff_manager\<close>, which grants
  \<open>form:delete\<close> and not \<open>form:edit\<close>; the resolved set contains both, and is the
  same set when the two assignments are listed in the other order.
\<close>

lemma example_db_u1_permissions:
  "get_user_permissions ''u1'' example_db
     = {FORM_READ, FORM_DELETE, BUSINESS_AREA_MANAGE, FORM_REVIEW, FORM_APPROVE, FORM_EDIT,
        BUSINESS_AREA_READ}"
  by (auto simp: get_user_permissions_def query_user_first_def query_user_roles_def
      collect_role_permissions_def user_role_role_def get_inherited_permissions_set
      example_db_def example_users_def example_roles_def assignment_r1_def assignment_r2_def)

theorem get_user_permissions_form_delete_witness:
  "''u1'' \<in> users_id ` set (users_table example_db)
   \<and> assignment_r1 \<in> set (user_roles_table example_db)
   \<and> user_role_role example_db assignment_r1 = Some (hd example_roles)
   \<and> roles_permissions (hd example_roles)
        = PermList [FORM_READ, FORM_DELETE, BUSINESS_AREA_MANAGE]
   \<and> FORM_EDIT \<in> get_user_permissions ''u1'' example_db
   \<and> mset [assignment_r2, assignment_r1] = mset (user_roles_table example_db)
   \<and> get_user_permissions ''u1'' example_db_reordered = get_user_permissions ''u1'' example_db"
proof -
  have h: "''u1'' \<in> users_id ` set (users_table example_db)
      \<and> assignment_r1 \<in> set (user_roles_table example_db)
      \<and> user_roles_user_id assignment_r1 = ''u1'' \<and> user_roles_deleted_at assignment_r1 = None
      \<and> user_role_role example_db assignment_r1 = Some (hd example_roles)
      \<and> roles_is_active (hd example_roles) \<and> roles_deleted_at (hd example_roles) = None
      \<and> roles_permissions (hd example_roles)
           = PermList [FORM_READ, FORM_DELETE, BUSINESS_AREA_MANAGE]
      \<and> FORM_DELETE \<in> set [FORM_READ, FORM_DELETE, BUSINESS_AREA_MANAGE]"
    by (simp add: example_db_def example_users_def example_roles_def assignment_r1_def
        user_role_role_def)
  have m: "mset [assignment_r2, assignment_r1] = mset (user_roles_table example_db)"
    by (simp add: example_db_def)
  have r: "example_db\<lparr>user_roles_table := [assignment_r2, assignment_r1]\<rparr>
             = example_db_reordered"
    by (simp add: example_db_def example_db_reordered_def)
  note th = get_user_permissions_form_delete
      [where user_id = "''u1''" and db = example_db and ur = assignment_r1
         and role = "hd example_roles"
         and ps = "[FORM_READ, FORM_DELETE, BUSINESS_AREA_MANAGE]"
         and assignments = "[assignment_r2, assignment_r1]", unfolded r]
  from th h m show ?thesis by blast
qed

section \<open>Properties of the permission catalog\<close>

lemma resources_distinct: "distinct (map fst RESOURCE_ACTION_PERMISSIONS)"
  by (simp add: RESOURCE_ACTION_PERMISSIONS_def)

lemma actions_distinct:
  "(resource, actions) \<in> set RESOURCE_ACTION_PERMISSIONS \<Longrightarrow> distinct (map fst actions)"
  by (auto simp: RESOURCE_ACTION_PERMISSIONS_def)

lemma get_permission_for_resource_action_Inr:
  "get_permission_for_resource_action resource action = Inr permission \<longleftrightarrow>
     (\<exists>actions. (resource, actions) \<in> set RESOURCE_ACTION_PERMISSIONS
                \<and> (action, permission) \<in> set actions)"
proof
  assume "get_permission_for_resource_action resource action = Inr permission"
  then obtain actions where "map_of RESOURCE_ACTION_PERMISSIONS resource = Some actions"
    and "map_of actions action = Some permission"
    by (auto simp: get_permission_for_resource_action_def split: option.splits)
  then show "\<exists>actions. (resource, actions) \<in> set RESOURCE_ACTION_PERMISSIONS
                \<and> (action, permission) \<in> set actions"
    by (blast dest: map_of_SomeD)
next
  assume "\<exists>actions. (resource, actions) \<in> set RESOURCE_ACTION_PERMISSIONS
                \<and> (action, permission) \<in> set actions"
  then obtain actions where r: "(resource, actions) \<in> set RESOURCE_ACTION_PERMISSIONS"
    and a: "(action, permission) \<in> set actions" by blast
  from r have "map_of RESOURCE_ACTION_PERMISSIONS resource = Some actions"
    using resources_distinct by simp
  moreover from a have "map_of actions action = Some permission"
    using actions_distinct[OF r] by simp
  ultimately show "get_permission_for_resource_action resource action = Inr permission"
    by (simp add: get_permission_for_resource_action_def)
qed

text \<open>
  C9. \<open>get_permission_for_resource_action\<close> returns a permission exactly when the
  table registers it for the resource and action, and otherwise fails with the
  \<open>ValueError\<close> for an unknown resource or action. For \<open>forms\<close> and \<open>archive\<close> it
  returns \<open>form:archive\<close>; for \<open>unknown\<close> and \<open>read\<close> it fails.
\<close>

theorem get_permission_for_resource_action_registered:
  "(get_permission_for_resource_action resource action = Inr permission \<longleftrightarrow>
      (\<exists>actions. (resource, actions) \<in> set RESOURCE_ACTION_PERMISSIONS
                 \<and> (action, permission) \<in> set actions))
   \<and> ((\<forall>actions p. (resource, actions) \<in> set RESOURCE_ACTION_PERMISSIONS
                    \<longrightarrow> (action, p) \<notin> set actions) \<longrightarrow>
        (\<exists>msg. get_permission_for_resource_action resource action = Inl (ValueError msg)))
   \<and> get_permission_for_resource_action ''forms'' ''archive'' = Inr FORM_ARCHIVE
   \<and> get_permission_for_resource_action ''unknown'' ''read''
        = Inl (ValueError ''Unknown resource: unknown'')"
proof (intro conjI impI)
  show "get_permission_for_resource_action resource action = Inr permission \<longleftrightarrow>
      (\<exists>actions. (resource, actions) \<in> set RESOURCE_ACTION_PERMISSIONS
                 \<and> (action, permission) \<in> set actions)"
    by (rule get_permission_for_resource_action_Inr)
next
  assume n: "\<forall>actions p. (resource, actions) \<in> set RESOURCE_ACTION_PERMISSIONS
                    \<longrightarrow> (action, p) \<notin> set actions"
  show "\<exists>msg. get_permission_for_resource_action resource action = Inl (ValueError msg)"
  proof (cases "get_permission_for_resource_action resource action")
    case (Inl e)
    then show ?thesis by (cases e) simp
  next
    case (Inr p)
    then show ?thesis
      using n get_permission_for_resource_action_Inr[of resource action p] by blast
  qed
next
  show "get_permission_for_resource_action ''forms'' ''archive'' = Inr FORM_ARCHIVE"
    by (simp add: get_permission_for_resource_action_def RESOURCE_ACTION_PERMISSIONS_def)
next
  show "get_permission_for_resource_action ''unknown'' ''read''
        = Inl (ValueError ''Unknown resource: unknown'')"
    by (simp add: get_permission_for_resource_action_def RESOURCE_ACTION_PERMISSIONS_def)
qed

text \<open>
  At concrete inputs: \<open>users\<close> and \<open>manage_roles\<close> are registered with
  \<open>user:manage_roles\<close>; \<open>forms\<close> has no action \<open>export\<close>.
\<close>

theorem get_permission_for_resource_action_registered_witness:
  "get_permission_for_resource_action ''users'' ''manage_roles'' = Inr USER_MANAGE_ROLES
   \<and> map_of (the (map_of RESOURCE_ACTION_PERMISSIONS ''forms'')) ''export'' = None
   \<and> (\<exists>msg. get_permission_for_resource_action ''forms'' ''export'' = Inl (ValueError msg))"
proof -
  have r: "\<exists>actions. (''users'', actions) \<in> set RESOURCE_ACTION_PERMISSIONS
                 \<and> (''manage_roles'', USER_MANAGE_ROLES) \<in> set actions"
    by (simp add: RESOURCE_ACTION_PERMISSIONS_def)
  have n: "\<forall>actions p. (''forms'', actions) \<in> set RESOURCE_ACTION_PERMISSIONS
                    \<longrightarrow> (''export'', p) \<notin> set actions"
    by (simp add: RESOURCE_ACTION_PERMISSIONS_def)
  from get_permission_for_resource_action_registered
         [of "''users''" "''manage_roles''" USER_MANAGE_ROLES] r
  have a: "get_permission_for_resource_action ''users'' ''manage_roles'' = Inr USER_MANAGE_ROLES"
    by blast
  from get_permission_for_resource_action_registered[of "''forms''" "''export''"] n
  have b: "\<exists>msg. get_permission_for_resource_action ''forms'' ''export'' = Inl (ValueError msg)"
    by blast
  have m: "map_of (the (map_of RESOURCE_ACTION_PERMISSIONS ''forms'')) ''export'' = None"
    by (simp add: RESOURCE_ACTION_PERMISSIONS_def)
  from a m b show ?thesis by blast
qed

section \<open>Properties of request authentication\<close>

lemma lower_development: "lower ''development'' = ''development''"
  by (simp add: lower_def char_lower_def)

lemma lower_production: "lower ''production'' = ''production''"
  by (simp add: lower_def char_lower_def)

lemma IS_DEVELOPMENT_development:
  "environ ''ENVIRONMENT'' = Some ''development'' \<Longrightarrow> IS_DEVELOPMENT environ"
  by (simp add: IS_DEVELOPMENT_def ENVIRONMENT_def getenv_def lower_development)

lemma IS_DEVELOPMENT_production:
  "environ ''ENVIRONMENT'' = None \<or> environ ''ENVIRONMENT'' = Some ''production''
     \<Longrightarrow> \<not> IS_DEVELOPMENT environ"
  by (auto simp: IS_DEVELOPMENT_def ENVIRONMENT_def getenv_def lower_production)

text \<open>
  C10. With \<open>ENVIRONMENT\<close> set to \<open>development\<close>, \<open>get_current_user\<close> accepts the
  bearer string \<open>demo-token\<close> at every moment, with no validation, and returns the fixed
  demo principal, whose only role is \<open>admin\<close>. For every other token string, and for
  every token string when \<open>ENVIRONMENT\<close> is unset or set to \<open>production\<close>, it returns
  what \<open>validate_token\<close> returns for an access token, or status 401 with its error; in
  production \<open>demo-token\<close> is rejected as a string that does not parse.
\<close>

theorem get_current_user_demo_token:
  "(environ ''ENVIRONMENT'' = Some ''development'' \<longrightarrow>
      get_current_user environ now (Opaque ''demo-token'')
        = Inr \<lparr>sub = ''550e8400-e29b-41d4-a716-446655440000'',
               email = Some ''demo@example.com'', name = Some ''Demo User'',
               roles = [''admin''], token_type = ''access''\<rparr>)
   \<and> (token \<noteq> Opaque ''demo-token'' \<or> environ ''ENVIRONMENT'' = None
        \<or> environ ''ENVIRONMENT'' = Some ''production'' \<longrightarrow>
        get_current_user environ now token
          = (case validate_token now token ''access'' of
               Inr token_data \<Rightarrow> Inr token_data
             | Inl e \<Rightarrow> Inl (HTTPException 401 (ErrorText e))))
   \<and> (environ ''ENVIRONMENT'' = None \<or> environ ''ENVIRONMENT'' = Some ''production'' \<longrightarrow>
        get_current_user environ now (Opaque ''demo-token'')
          = Inl (HTTPException 401 (ErrorText (ValidationFailed DecodeError))))"
proof (intro conjI impI)
  assume "environ ''ENVIRONMENT'' = Some ''development''"
  then show "get_current_user environ now (Opaque ''demo-token'')
        = Inr \<lparr>sub = ''550e8400-e29b-41d4-a716-446655440000'',
               email = Some ''demo@example.com'', name = Some ''Demo User'',
               roles = [''admin''], token_type = ''access''\<rparr>"
    by (simp add: get_current_user_def IS_DEVELOPMENT_development)
next
  assume "token \<noteq> Opaque ''demo-token'' \<or> environ ''ENVIRONMENT'' = None
        \<or> environ ''ENVIRONMENT'' = Some ''production''"
  then have "\<not> (IS_DEVELOPMENT environ \<and> token = Opaque ''demo-token'')"
    using IS_DEVELOPMENT_production[of environ] by blast
  then show "get_current_user environ now token
          = (case validate_token now token ''access'' of
               Inr token_data \<Rightarrow> Inr token_data
             | Inl e \<Rightarrow> Inl (HTTPException 401 (ErrorText e)))"
    by (auto simp: get_current_user_def)
next
  assume "environ ''ENVIRONMENT'' = None \<or> environ ''ENVIRONMENT'' = Some ''production''"
  then have "\<not> IS_DEVELOPMENT environ"
    by (rule IS_DEVELOPMENT_production)
  then show "get_current_user environ now (Opaque ''demo-token'')
          = Inl (HTTPException 401 (ErrorText (ValidationFailed DecodeError)))"
    by (simp add: get_current_user_def validate_token_def jwt_decode_def)
qed

text \<open>
  At concrete inputs: in development the demo token is accepted and a string that is not
  the demo token is rejected with status 401; with no \<open>ENVIRONMENT\<close> the demo token is
  rejected with status 401.
\<close>

theorem get_current_user_demo_token_witness:
  "get_current_user [''ENVIRONMENT'' \<mapsto> ''development''] 1000 (Opaque ''demo-token'')
     = Inr \<lparr>sub = ''550e8400-e29b-41d4-a716-446655440000'',
            email = Some ''demo@example.com'', name = Some ''Demo User'',
            roles = [''admin''], token_type = ''access''\<rparr>
   \<and> get_current_user [''ENVIRONMENT'' \<mapsto> ''development''] 1000 (Opaque ''demo-tokem'')
       = Inl (HTTPException 401 (ErrorText (ValidationFailed DecodeError)))
   \<and> get_current_user Map.empty 1000 (Opaque ''demo-token'')
       = Inl (HTTPException 401 (ErrorText (ValidationFailed DecodeError)))"
proof -
  have d: "[''ENVIRONMENT'' \<mapsto> ''development''] ''ENVIRONMENT'' = Some ''development''"
    by simp
  have o: "Opaque ''demo-tokem'' \<noteq> Opaque ''demo-token''"
    by simp
  have e: "(Map.empty :: string \<rightharpoonup> string) ''ENVIRONMENT'' = None"
    by simp
  have v: "validate_token 1000 (Opaque ''demo-tokem'') ''access''
             = Inl (ValidationFailed DecodeError)"
    by (simp add: validate_token_def jwt_decode_def)
  from get_current_user_demo_token
         [of "[''ENVIRONMENT'' \<mapsto> ''development'']" 1000 "Opaque ''demo-tokem''"] d o
  have a: "get_current_user [''ENVIRONMENT'' \<mapsto> ''development''] 1000 (Opaque ''demo-token'')
     = Inr \<lparr>sub = ''550e8400-e29b-41d4-a716-446655440000'',
            email = Some ''demo@example.com'', name = Some ''Demo User'',
            roles = [''admin''], token_type = ''access''\<rparr>
     \<and> get_current_user [''ENVIRONMENT'' \<mapsto> ''development''] 1000 (Opaque ''demo-tokem'')
       = Inl (HTTPException 401 (ErrorText (ValidationFailed DecodeError)))"
    by (simp add: v)
  from get_current_user_demo_token[of Map.empty 1000 "Opaque ''demo-token''"] e
  have b: "get_current_user Map.empty 1000 (Opaque ''demo-token'')
       = Inl (HTTPException 401 (ErrorText (ValidationFailed DecodeError)))"
    by blast
  from a b show ?thesis by blast
qed

section \<open>Properties of audit recording\<close>

lemma permission_check_entry_user_id [simp]:
  "audit_log_user_id (permission_check_entry user_id permission allowed resource action details)
     = user_id"
  by (simp add: permission_check_entry_def)

lemma record_permission_check_absent:
  "user_id \<notin> users_id ` set (users_table db) \<Longrightarrow>
     record_permission_check db user_id permission allowed resource action details = db"
  using query_user_first_None[of db user_id] by (simp add: record_permission_check_def)

lemma record_permission_check_failed:
  "db_add_commit db (permission_check_entry user_id permission allowed resource action details)
     = Inl e \<Longrightarrow>
   record_permission_check db user_id permission allowed resource action details = db"
  by (simp add: record_permission_check_def db_rollback_def split: option.splits)

lemma record_permission_check_stored:
  "user_id \<in> users_id ` set (users_table db) \<Longrightarrow> \<not> store_unavailable db \<Longrightarrow>
     record_permission_check db user_id permission allowed resource action details
       = db\<lparr>audit_log_table := audit_log_table db
              @ [permission_check_entry user_id permission allowed resource action details]\<rparr>"
  using query_user_first_None[of db user_id]
  by (auto simp: record_permission_check_def db_add_commit_def split: option.splits)

text \<open>The resolver reads the users, roles and assignments only.\<close>

lemma get_user_permissions_store_unavailable [simp]:
  "get_user_permissions user_id (db\<lparr>store_unavailable := b\<rparr>) = get_user_permissions user_id db"
proof -
  have c: "collect_role_permissions (db\<lparr>store_unavailable := b\<rparr>) = collect_role_permissions db"
    by (rule collect_role_permissions_roles_table) simp
  have u: "query_user_first (db\<lparr>store_unavailable := b\<rparr>) user_id = query_user_first db user_id"
    by (simp add: query_user_first_def)
  have q: "query_user_roles (db\<lparr>store_unavailable := b\<rparr>) user_id = query_user_roles db user_id"
    by (simp add: query_user_roles_def)
  show ?thesis
    unfolding get_user_permissions_def c u q by (rule refl)
qed

text \<open>
  C8. When the principal is not in the store, \<open>log_permission_check\<close> and the form
  service's audit helper return with the store as it was: no audit row is inserted. When
  the write fails, for whatever reason, both return with the store as it was: the
  failure is swallowed. Without a session \<open>log_permission_check\<close> returns at once. The
  outcome of each gate (the user returned or the exception raised) is the same whether or
  not the store can complete the audit write.
\<close>

theorem audit_recording_never_fails:
  "(user_id \<notin> users_id ` set (users_table db) \<longrightarrow>
      log_permission_check user_id permission allowed resource action details (Some db) = Some db
      \<and> FormService_audit_log db entity_type entity_id act user_id old_values new_values = db)
   \<and> (db_add_commit db
         (permission_check_entry user_id permission allowed resource action details) = Inl e \<longrightarrow>
        log_permission_check user_id permission allowed resource action details (Some db)
          = Some db)
   \<and> (db_add_commit db
         \<lparr>audit_log_entity_type = entity_type, audit_log_entity_id = entity_id,
          audit_log_action = act, audit_log_user_id = user_id,
          audit_log_old_values = old_values, audit_log_new_values = new_values\<rparr> = Inl e \<longrightarrow>
        FormService_audit_log db entity_type entity_id act user_id old_values new_values = db)
   \<and> log_permission_check user_id permission allowed resource action details None = None
   \<and> fst (require_permission resource' action' user (db\<lparr>store_unavailable := b\<rparr>))
        = fst (require_permission resource' action' user db)
   \<and> fst (require_any_permission permissions user (db\<lparr>store_unavailable := b\<rparr>))
        = fst (require_any_permission permissions user db)
   \<and> fst (require_all_permissions permissions user (db\<lparr>store_unavailable := b\<rparr>))
        = fst (require_all_permissions permissions user db)"
proof (intro conjI impI)
  assume a: "user_id \<notin> users_id ` set (users_table db)"
  show "log_permission_check user_id permission allowed resource action details (Some db)
          = Some db"
    by (simp add: log_permission_check_def record_permission_check_absent[OF a])
  show "FormService_audit_log db entity_type entity_id act user_id old_values new_values = db"
    using a by (simp add: FormService_audit_log_def db_add_commit_def db_rollback_def)
next
  assume "db_add_commit db
         (permission_check_entry user_id permission allowed resource action details) = Inl e"
  then show "log_permission_check user_id permission allowed resource action details (Some db)
          = Some db"
    by (simp add: log_permission_check_def record_permission_check_failed)
next
  assume "db_add_commit db
         \<lparr>audit_log_entity_type = entity_type, audit_log_entity_id = entity_id,
          audit_log_action = act, audit_log_user_id = user_id,
          audit_log_old_values = old_values, audit_log_new_values = new_values\<rparr> = Inl e"
  then show "FormService_audit_log db entity_type entity_id act user_id old_values new_values
          = db"
    by (simp add: FormService_audit_log_def db_rollback_def)
next
  show "log_permission_check user_id permission allowed resource action details None = None"
    by (simp add: log_permission_check_def)
next
  show "fst (require_permission resource' action' user (db\<lparr>store_unavailable := b\<rparr>))
        = fst (require_permission resource' action' user db)"
    by (simp add: require_permission_def has_permission_def Let_def
        split: sum.splits lookup_error.splits)
next
  show "fst (require_any_permission permissions user (db\<lparr>store_unavailable := b\<rparr>))
        = fst (require_any_permission permissions user db)"
    by (simp add: require_any_permission_def has_any_permission_def Let_def)
next
  show "fst (require_all_permissions permissions user (db\<lparr>store_unavailable := b\<rparr>))
        = fst (require_all_permissions permissions user db)"
    by (simp add: require_all_permissions_def has_all_permissions_def Let_def)
qed

text \<open>
  At concrete inputs: a denied check for user \<open>u9\<close>, who is not in the example store,
  leaves the store as it was, and so does the form service's helper; for user \<open>a1\<close>, a
  denied check on the store that cannot write leaves it as it was, while on the store
  that can write it appends one row.
\<close>

theorem audit_recording_never_fails_witness:
  "''u9'' \<notin> users_id ` set (users_table example_db)
   \<and> log_permission_check ''u9'' FORM_CREATE False None None None (Some example_db)
       = Some example_db
   \<and> FormService_audit_log example_db ''forms'' ''f1'' ''UPDATE'' ''u9'' None None = example_db
   \<and> db_add_commit admin_db_unavailable
        (permission_check_entry ''a1'' FORM_CREATE False None None None) = Inl OperationalError
   \<and> log_permission_check ''a1'' FORM_CREATE False None None None (Some admin_db_unavailable)
       = Some admin_db_unavailable
   \<and> length (audit_log_table
        (the (log_permission_check ''a1'' FORM_CREATE False None None None (Some admin_db)))) = 1"
proof -
  have h9: "''u9'' \<notin> users_id ` set (users_table example_db)"
    by (simp add: example_db_def example_users_def)
  have f: "db_add_commit admin_db_unavailable
        (permission_check_entry ''a1'' FORM_CREATE False None None None) = Inl OperationalError"
    by (simp add: db_add_commit_def admin_db_unavailable_def)
  have s: "length (audit_log_table
        (the (log_permission_check ''a1'' FORM_CREATE False None None None (Some admin_db)))) = 1"
    by (simp add: log_permission_check_def record_permission_check_def query_user_first_def
        db_add_commit_def admin_db_def)
  note th9 = audit_recording_never_fails
      [where user_id = "''u9''" and db = example_db and permission = FORM_CREATE
         and allowed = False and resource = None and action = None and details = None
         and entity_type = "''forms''" and entity_id = "''f1''" and act = "''UPDATE''"
         and old_values = None and new_values = None]
  note tha = audit_recording_never_fails
      [where user_id = "''a1''" and db = admin_db_unavailable and permission = FORM_CREATE
         and allowed = False and resource = None and action = None and details = None
         and e = OperationalError]
  from th9 h9 have a: "log_permission_check ''u9'' FORM_CREATE False None None None
        (Some example_db) = Some example_db
      \<and> FormService_audit_log example_db ''forms'' ''f1'' ''UPDATE'' ''u9'' None None
          = example_db"
    by blast
  from tha f have b: "log_permission_check ''a1'' FORM_CREATE False None None None
        (Some admin_db_unavailable) = Some admin_db_unavailable"
    by blast
  from h9 a f b s show ?thesis by blast
qed

section \<open>Properties of the authorization gate\<close>

text \<open>
  What the gates hand to the audit recorder. A denied check always reaches the recorder,
  with the permission string of the check; an allowed check reaches it exactly when that
  string is on the sensitive list, and otherwise leaves the store as it was. For
  \<open>require_permission\<close> the string is the permission of the resource and action; for
  the other two it is the permissions joined with a bar or an ampersand.
\<close>

lemma require_permission_audit:
  assumes "get_permission_for_resource_action resource action = Inr permission"
  shows "require_permission resource action user db =
     (if has_permission (sub user) permission db
      then (Inr user,
            if permission \<in> set sensitive_permissions
            then record_permission_check db (sub user) permission True (Some resource)
                   (Some action) None
            else db)
      else (Inl (HTTPException 403
                   (Text (''Insufficient permissions. Required: '' @ resource @ '':'' @ action))),
            record_permission_check db (sub user) permission False (Some resource)
              (Some action) None))"
  using assms
  by (simp add: require_permission_def log_permission_check_def session_after_def Let_def)

lemma require_any_permission_audit:
  "require_any_permission permissions user db =
     (if has_any_permission (sub user) permissions db
      then (Inr user,
            if join ''|'' permissions \<in> set sensitive_permissions
            then record_permission_check db (sub user) (join ''|'' permissions) True None None
                   None
            else db)
      else (Inl (HTTPException 403
                   (Text (''Insufficient permissions. Required one of: ''
                          @ join '', '' permissions))),
            record_permission_check db (sub user) (join ''|'' permissions) False None None
              None))"
  by (simp add: require_any_permission_def log_permission_check_def session_after_def Let_def)

lemma require_all_permissions_audit:
  "require_all_permissions permissions user db =
     (if has_all_permissions (sub user) permissions db
      then (Inr user,
            if join ''&'' permissions \<in> set sensitive_permissions
            then record_permission_check db (sub user) (join ''&'' permissions) True None None
                   None
            else db)
      else (Inl (HTTPException 403
                   (Text (''Insufficient permissions. Required all of: ''
                          @ join '', '' permissions))),
            record_permission_check db (sub user) (join ''&'' permissions) False None None
              None))"
  by (simp add: require_all_permissions_def log_permission_check_def session_after_def Let_def)

lemma admin_db_permissions:
  "get_user_permissions ''a1'' admin_db
     = {FORM_READ, ROLE_CREATE, ROLE_EDIT, SYSTEM_CONFIG, SYSTEM_HEALTH}"
  by (auto simp: get_user_permissions_def query_user_first_def query_user_roles_def
      collect_role_permissions_def user_role_role_def get_inherited_permissions_set
      admin_db_def)

text \<open>
  C7. In the example store user \<open>a1\<close> holds \<open>system:config\<close>, \<open>role:create\<close> and
  \<open>role:edit\<close>, which are on the sensitive list. The check of \<open>system:config\<close> or
  \<open>system:health\<close> by \<open>require_any_permission\<close> is allowed and leaves the store as it
  was, with no audit row, and so does the check of \<open>role:create\<close> and \<open>role:edit\<close> by
  \<open>require_all_permissions\<close>; the check of \<open>system:config\<close> by \<open>require_permission\<close>
  is allowed and appends the audit row.
\<close>

theorem sensitive_grant_not_audited:
  "has_permission ''a1'' SYSTEM_CONFIG admin_db
   \<and> SYSTEM_CONFIG \<in> set sensitive_permissions
   \<and> require_any_permission [SYSTEM_CONFIG, SYSTEM_HEALTH] admin_user admin_db
       = (Inr admin_user, admin_db)
   \<and> has_permission ''a1'' ROLE_CREATE admin_db \<and> has_permission ''a1'' ROLE_EDIT admin_db
   \<and> ROLE_CREATE \<in> set sensitive_permissions \<and> ROLE_EDIT \<in> set sensitive_permissions
   \<and> require_all_permissions [ROLE_CREATE, ROLE_EDIT] admin_user admin_db
       = (Inr admin_user, admin_db)
   \<and> require_permission ''system'' ''config'' admin_user admin_db
       = (Inr admin_user,
          admin_db\<lparr>audit_log_table :=
            [permission_check_entry ''a1'' SYSTEM_CONFIG True (Some ''system'') (Some ''config'')
               None]\<rparr>)"
proof -
  have s: "sub admin_user = ''a1''"
    by (simp add: admin_user_def)
  have u: "''a1'' \<in> users_id ` set (users_table admin_db)" "\<not> store_unavailable admin_db"
    "audit_log_table admin_db = []"
    by (simp_all add: admin_db_def)
  have p: "get_permission_for_resource_action ''system'' ''config'' = Inr SYSTEM_CONFIG"
    by (simp add: get_permission_for_resource_action_def RESOURCE_ACTION_PERMISSIONS_def)
  have any: "require_any_permission [SYSTEM_CONFIG, SYSTEM_HEALTH] admin_user admin_db
       = (Inr admin_user, admin_db)"
    by (simp add: require_any_permission_audit has_any_permission_def s admin_db_permissions
        sensitive_permissions_def)
  have all: "require_all_permissions [ROLE_CREATE, ROLE_EDIT] admin_user admin_db
       = (Inr admin_user, admin_db)"
    by (simp add: require_all_permissions_audit has_all_permissions_def s admin_db_permissions
        sensitive_permissions_def)
  have one: "require_permission ''system'' ''config'' admin_user admin_db
       = (Inr admin_user,
          admin_db\<lparr>audit_log_table :=
            [permission_check_entry ''a1'' SYSTEM_CONFIG True (Some ''system'') (Some ''config'')
               None]\<rparr>)"
    by (simp add: require_permission_audit[OF p] has_permission_def s admin_db_permissions
        sensitive_permissions_def record_permission_check_stored[OF u(1,2)] u(3))
  show ?thesis
    using any all one
    by (simp add: has_permission_def admin_db_permissions sensitive_permissions_def)
qed

end
